theory Spec2Isabelle
  imports Complex_Main "HOL-Library.Log_Nat" "HOL-Library.Sublist"
begin

section \<open>JavaScript numbers\<close>

text \<open>
  The scores of \<^verbatim>\<open>banking/fraud-detection/index.ts\<close> are IEEE-754 binary64 values
  (\<^verbatim>\<open>number\<close>). A finite double is represented by the rational it denotes. The literal
  \<^verbatim>\<open>0.3\<close> is the double nearest to 3/10, and \<^verbatim>\<open>a + b\<close> is the double nearest to the
  exact sum, ties going to the even significand. \<open>to_double\<close> is that rounding for the
  normal range (53-bit significands; overflow and subnormals do not occur for sums of
  the four constants of the scoring, which stay within 0 and 1.1).
\<close>

definition round_half_even :: "rat \<Rightarrow> int" where
  "round_half_even q =
     (let f = \<lfloor>q\<rfloor>; r = q - of_int f
      in if r < 1 / 2 then f else if 1 / 2 < r then f + 1 else if even f then f else f + 1)"

definition binade :: "rat \<Rightarrow> int" where
  \<comment> \<open>the exponent \<open>e\<close> with \<open>2^e \<le> |x| < 2^(e+1)\<close>, for \<open>x \<noteq> 0\<close>\<close>
  "binade x =
     (let (p, q) = quotient_of \<bar>x\<bar>; d = bitlen p - bitlen q
      in if power_int 2 d \<le> \<bar>x\<bar> then d else d - 1)"

definition to_double :: "rat \<Rightarrow> rat" where
  "to_double x =
     (if x = 0 then 0
      else let e = binade x - 52
           in of_int (round_half_even (x / power_int 2 e)) * power_int 2 e)"

definition fadd :: "rat \<Rightarrow> rat \<Rightarrow> rat" where
  \<comment> \<open>\<^verbatim>\<open>x + y\<close> on finite doubles\<close>
  "fadd x y = to_double (x + y)"

text \<open>
  A \<^verbatim>\<open>number\<close> that comes from the caller (the amount, a metadata field) may also be
  \<^verbatim>\<open>NaN\<close> or an infinity; every comparison with \<^verbatim>\<open>NaN\<close> is false.
\<close>

datatype number = NaN | NegInf | Fin rat | PosInf

fun js_gt :: "number \<Rightarrow> number \<Rightarrow> bool" where
  "js_gt NaN _ = False"
| "js_gt _ NaN = False"
| "js_gt NegInf _ = False"
| "js_gt (Fin a) NegInf = True"
| "js_gt (Fin a) (Fin b) = (b < a)"
| "js_gt (Fin a) PosInf = False"
| "js_gt PosInf PosInf = False"
| "js_gt PosInf _ = True"

fun js_le :: "number \<Rightarrow> number \<Rightarrow> bool" where
  "js_le NaN _ = False"
| "js_le _ NaN = False"
| "js_le NegInf _ = True"
| "js_le (Fin a) NegInf = False"
| "js_le (Fin a) (Fin b) = (a \<le> b)"
| "js_le (Fin a) PosInf = True"
| "js_le PosInf PosInf = True"
| "js_le PosInf _ = False"

text \<open>
  A metadata field is absent (\<^verbatim>\<open>undefined\<close>, \<open>None\<close>) or present. \<open>toNumber\<close> is the
  conversion a relational operator applies to its operand; \<open>or_zero\<close> is \<^verbatim>\<open>v || 0\<close>,
  which replaces the falsy values \<^verbatim>\<open>undefined\<close>, \<^verbatim>\<open>NaN\<close> and \<^verbatim>\<open>0\<close> by \<^verbatim>\<open>0\<close>.
\<close>

fun toNumber :: "number option \<Rightarrow> number" where
  "toNumber None = NaN"
| "toNumber (Some n) = n"

fun or_zero :: "number option \<Rightarrow> number" where
  "or_zero None = Fin 0"
| "or_zero (Some NaN) = Fin 0"
| "or_zero (Some (Fin x)) = (if x = 0 then Fin 0 else Fin x)"
| "or_zero (Some NegInf) = NegInf"
| "or_zero (Some PosInf) = PosInf"


section \<open>Banking: the transaction and its risk score\<close>

text \<open>
  \<^verbatim>\<open>metadata: Record<string, any>\<close> is read at two keys only. \<^verbatim>\<open>recentTxCount\<close> is
  taken to be a number when present and \<^verbatim>\<open>toCountry\<close> a string when present.
\<close>

record tx_metadata =
  recentTxCount :: "number option"
  toCountry :: "string option"

record transaction =
  tx_id :: string
  amount :: number
  currency :: string
  from_account :: string
  to_account :: string
  tx_timestamp :: string
  metadata :: tx_metadata

datatype decision = ALLOW | BLOCK | REVIEW

text \<open>
  \<open>scoreBeforeClamp\<close> is the local variable \<^verbatim>\<open>score\<close> of \<^verbatim>\<open>calculateRiskScore\<close> when
  the \<^verbatim>\<open>return\<close> statement is reached; the function returns \<^verbatim>\<open>Math.min(score, 1.0)\<close>.
\<close>

definition scoreBeforeClamp :: "transaction \<Rightarrow> rat" where
  "scoreBeforeClamp tx =
     (let score = 0;
          score = (if js_gt (amount tx) (Fin 10000) then fadd score (to_double (3 / 10)) else score);
          score = (if js_gt (amount tx) (Fin 50000) then fadd score (to_double (2 / 10)) else score);
          recentTxCount = or_zero (recentTxCount (metadata tx));
          score = (if js_gt recentTxCount (Fin 5) then fadd score (to_double (2 / 10)) else score);
          isHighRiskCountry = (toCountry (metadata tx) = Some ''XX'');
          score = (if isHighRiskCountry then fadd score (to_double (3 / 10)) else score)
      in score)"

definition calculateRiskScore :: "transaction \<Rightarrow> rat" where
  "calculateRiskScore tx = min (scoreBeforeClamp tx) 1"

definition generateReasoning :: "transaction \<Rightarrow> rat \<Rightarrow> string list" where
  "generateReasoning tx score =
     (let reasons = [];
          reasons = (if js_gt (amount tx) (Fin 10000)
                     then reasons @ [''High transaction amount''] else reasons);
          reasons = (if js_gt (toNumber (recentTxCount (metadata tx))) (Fin 5)
                     then reasons @ [''High transaction velocity''] else reasons);
          reasons = (if toCountry (metadata tx) = Some ''XX''
                     then reasons @ [''High-risk destination country''] else reasons);
          reasons = (if score < to_double (3 / 10)
                     then reasons @ [''Normal transaction pattern''] else reasons)
      in reasons)"

text \<open>
  The conditional expression of \<^verbatim>\<open>detectFraud\<close> that turns the score into the decision
  (\<^verbatim>\<open>riskScore > 0.8 ? 'BLOCK' : riskScore > 0.5 ? 'REVIEW' : 'ALLOW'\<close>).
\<close>

definition decisionFor :: "rat \<Rightarrow> decision" where
  "decisionFor riskScore =
     (if to_double (8 / 10) < riskScore then BLOCK
      else if to_double (5 / 10) < riskScore then REVIEW
      else ALLOW)"

text \<open>
  The scoring as the specification words it, in exact decimal arithmetic: start at 0,
  add 0.3 above 10,000, a further 0.2 above 50,000, 0.2 when the recent-transaction
  count exceeds 5, 0.3 for the high-risk country, and clamp to the interval from 0 to 1.
\<close>

definition reference_score :: "transaction \<Rightarrow> rat" where
  "reference_score tx =
     max 0 (min 1
       ((if js_gt (amount tx) (Fin 10000) then 3 / 10 else 0)
        + (if js_gt (amount tx) (Fin 50000) then 2 / 10 else 0)
        + (if js_gt (toNumber (recentTxCount (metadata tx))) (Fin 5) then 2 / 10 else 0)
        + (if toCountry (metadata tx) = Some ''XX'' then 3 / 10 else 0)))"



section \<open>The trust-framework client and the workflow\<close>

text \<open>
  The client library \<^verbatim>\<open>mcpf-typescript\<close> is outside the repository. Its three services
  are parameters of the workflows: each call takes the state \<open>'w\<close> of the outside world
  and returns its answer, or the error it rejects with, and the new state.
  \<^verbatim>\<open>new Date().toISOString()\<close> reads the clock of that world. Console output is left out.
  Both workflows construct the client with an \<^verbatim>\<open>a2aUrl\<close>, so \<^verbatim>\<open>mcpf.a2a\<close> is present.
  \<open>TypeError\<close> is what reading \<^verbatim>\<open>.id\<close> of an absent \<^verbatim>\<open>delegation.policy\<close> throws.
\<close>

datatype error = Error string | TypeError

record agent =
  agent_name :: string
  did :: string

record policy =
  policy_id :: string

record delegation =
  allowed :: bool
  reason :: "string option"
  policy :: "policy option"

record delegation_request =
  fromDid :: string
  toDid :: string
  action :: string

record 'w mcpf =
  ans_resolve :: "string \<Rightarrow> 'w \<Rightarrow> (error + agent) \<times> 'w"
  did_verifyAgent :: "string \<Rightarrow> 'w \<Rightarrow> (error + bool) \<times> 'w"
  a2a_checkDelegation :: "delegation_request \<Rightarrow> 'w \<Rightarrow> (error + delegation) \<times> 'w"
  date_toISOString :: "'w \<Rightarrow> string"

text \<open>
  A run threads the log of the service calls made so far and the world. An awaited call
  appends itself to the log; a rejection or a \<^verbatim>\<open>throw\<close> ends the run with \<open>Inl\<close>.
\<close>

datatype call = Resolve string | VerifyAgent string | CheckDelegation delegation_request

type_synonym ('w, 'a) async = "call list \<times> 'w \<Rightarrow> (error + 'a) \<times> (call list \<times> 'w)"

definition await :: "call \<Rightarrow> ('w \<Rightarrow> (error + 'a) \<times> 'w) \<Rightarrow> ('w, 'a) async" where
  "await c f = (\<lambda>(calls, w). case f w of (r, w') \<Rightarrow> (r, (calls @ [c], w')))"

definition and_then :: "('w, 'a) async \<Rightarrow> ('a \<Rightarrow> ('w, 'b) async) \<Rightarrow> ('w, 'b) async" where
  "and_then m k = (\<lambda>s. case m s of (Inl e, s') \<Rightarrow> (Inl e, s') | (Inr a, s') \<Rightarrow> k a s')"

definition throw :: "error \<Rightarrow> ('w, 'a) async" where
  "throw e = (\<lambda>s. (Inl e, s))"

definition return_value :: "'a \<Rightarrow> ('w, 'a) async" where
  "return_value a = (\<lambda>s. (Inr a, s))"

definition resolve :: "'w mcpf \<Rightarrow> string \<Rightarrow> ('w, agent) async" where
  "resolve mcpf n = await (Resolve n) (ans_resolve mcpf n)"

definition verifyAgent :: "'w mcpf \<Rightarrow> string \<Rightarrow> ('w, bool) async" where
  "verifyAgent mcpf d = await (VerifyAgent d) (did_verifyAgent mcpf d)"

definition checkDelegation :: "'w mcpf \<Rightarrow> delegation_request \<Rightarrow> ('w, delegation) async" where
  "checkDelegation mcpf req = await (CheckDelegation req) (a2a_checkDelegation mcpf req)"

fun interpolate :: "string option \<Rightarrow> string" where
  \<comment> \<open>a value inside a template literal\<close>
  "interpolate None = ''undefined''"
| "interpolate (Some s) = s"

record fraud_detection_result =
  transactionId :: string
  fraudDetectorDid :: string
  riskAnalyzerDid :: string
  policyId :: string
  riskScore :: rat
  decision :: decision
  reasoning :: "string list"
  timestamp :: string

definition detectFraud :: "'w mcpf \<Rightarrow> transaction \<Rightarrow> ('w, fraud_detection_result) async" where
  "detectFraud mcpf transaction =
     and_then (resolve mcpf ''fraud-detector.risk.bank.example.agent'') (\<lambda>fraudDetector.
     and_then (resolve mcpf ''risk-analyzer.analytics.bank.example.agent'') (\<lambda>riskAnalyzer.
     and_then (verifyAgent mcpf (did fraudDetector)) (\<lambda>detectorValid.
     and_then (verifyAgent mcpf (did riskAnalyzer)) (\<lambda>analyzerValid.
       if \<not> detectorValid \<or> \<not> analyzerValid
       then throw (Error ''Agent credential verification failed'')
       else
     and_then (checkDelegation mcpf
         \<lparr>fromDid = did fraudDetector, toDid = did riskAnalyzer,
          action = ''analyze-transaction''\<rparr>) (\<lambda>delegation.
       if \<not> allowed delegation
       then throw (Error (''Delegation denied: '' @ interpolate (reason delegation)))
       else
         let riskScore = calculateRiskScore transaction;
             reasoning = generateReasoning transaction riskScore;
             decision = decisionFor riskScore
         in case policy delegation of
              None \<Rightarrow> throw TypeError
            | Some p \<Rightarrow> (\<lambda>(calls, w).
                (Inr \<lparr>transactionId = tx_id transaction,
                      fraudDetectorDid = did fraudDetector,
                      riskAnalyzerDid = did riskAnalyzer,
                      policyId = policy_id p,
                      riskScore = riskScore,
                      decision = decision,
                      reasoning = reasoning,
                      timestamp = date_toISOString mcpf w\<rparr>, (calls, w))))))))"


section \<open>Customer service: escalation\<close>

record customer_query =
  customerId :: string
  message :: string
  severity :: "string option"

record response =
  response_message :: string
  confidence :: rat

record query_result =
  status :: string
  response :: response
  result_policyId :: "string option"

definition simulateL1Response :: "customer_query \<Rightarrow> response" where
  "simulateL1Response query =
     \<lparr>response_message = ''I can help with that!'',
      confidence = (if severity query = Some ''high'' then to_double (5 / 10)
                    else to_double (9 / 10))\<rparr>"

definition simulateSupervisorResponse :: "customer_query \<Rightarrow> response" where
  "simulateSupervisorResponse query =
     \<lparr>response_message = ''Supervisor: I'll handle this personally.'',
      confidence = to_double (95 / 100)\<rparr>"

text \<open>
  \<open>handleCustomerQueryWith\<close> is the body of \<^verbatim>\<open>handleCustomerQuery\<close> with the first-level
  responder as a parameter; the function of the source calls the stub
  \<^verbatim>\<open>simulateL1Response\<close>. The last \<^verbatim>\<open>return\<close> of the source is reached both when no
  escalation is needed and when the delegation is not allowed.
\<close>

definition handleCustomerQueryWith ::
  "(customer_query \<Rightarrow> response) \<Rightarrow> 'w mcpf \<Rightarrow> customer_query \<Rightarrow> ('w, query_result) async" where
  "handleCustomerQueryWith l1 mcpf query =
     and_then (resolve mcpf ''chatbot-l1.support.company.example.agent'') (\<lambda>chatbotL1.
     and_then (resolve mcpf ''supervisor-ai.management.company.example.agent'') (\<lambda>supervisorAI.
       let l1Response = l1 query;
           last_return = return_value
             \<lparr>status = ''resolved_l1'', response = l1Response, result_policyId = None\<rparr>
       in if confidence l1Response < to_double (8 / 10) \<or> severity query = Some ''high''
          then and_then (checkDelegation mcpf
                 \<lparr>fromDid = did chatbotL1, toDid = did supervisorAI, action = ''escalate''\<rparr>)
               (\<lambda>delegation.
                 if allowed delegation
                 then let supervisorResponse = simulateSupervisorResponse query
                      in case policy delegation of
                           None \<Rightarrow> throw TypeError
                         | Some p \<Rightarrow> return_value
                             \<lparr>status = ''escalated'', response = supervisorResponse,
                              result_policyId = Some (policy_id p)\<rparr>
                 else last_return)
          else last_return))"

definition handleCustomerQuery :: "'w mcpf \<Rightarrow> customer_query \<Rightarrow> ('w, query_result) async" where
  "handleCustomerQuery mcpf query = handleCustomerQueryWith simulateL1Response mcpf query"


section \<open>Concrete inputs\<close>

text \<open>
  A transaction with the fixed fields of the example at the end of the TypeScript file,
  and a client whose world is a counter of the calls made: name resolution always
  succeeds, the verification of the fraud detector answers \<open>sourceValid\<close> and any
  other \<open>targetValid\<close>, the delegation check answers \<open>d\<close>, and the clock shows the
  counter.
\<close>

definition example_tx :: "number \<Rightarrow> number option \<Rightarrow> string option \<Rightarrow> transaction" where
  "example_tx a n c =
     \<lparr>tx_id = ''tx_1'', amount = a, currency = ''USD'', from_account = ''account_12345'',
      to_account = ''account_67890'', tx_timestamp = ''2025-12-31T10:00:00.000Z'',
      metadata = \<lparr>recentTxCount = n, toCountry = c\<rparr>\<rparr>"

definition stub_mcpf :: "bool \<Rightarrow> bool \<Rightarrow> delegation \<Rightarrow> nat mcpf" where
  "stub_mcpf sourceValid targetValid d =
     \<lparr>ans_resolve = (\<lambda>n w. (Inr \<lparr>agent_name = n, did = ''did:web:'' @ n\<rparr>, Suc w)),
      did_verifyAgent = (\<lambda>i w.
        (Inr (if i = ''did:web:fraud-detector.risk.bank.example.agent'' then sourceValid
              else targetValid), Suc w)),
      a2a_checkDelegation = (\<lambda>r w. (Inr d, Suc w)),
      date_toISOString = (\<lambda>w. ''tick '' @ replicate w CHR ''|'')\<rparr>"

definition example_query :: "string option \<Rightarrow> customer_query" where
  "example_query s =
     \<lparr>customerId = ''cust_123'', message = ''My account was charged twice'', severity = s\<rparr>"

definition granted :: delegation where
  "granted = \<lparr>allowed = True, reason = None, policy = Some \<lparr>policy_id = ''pol_xyz''\<rparr>\<rparr>"

definition denied :: delegation where
  "denied = \<lparr>allowed = False, reason = Some ''policy pol_7 expired'', policy = None\<rparr>"


section \<open>Auxiliary definitions\<close>

text \<open>
  A client is deterministic when the answer of each service depends on the request
  only, not on the state of the world in which it is asked.
\<close>

definition deterministic :: "'w mcpf \<Rightarrow> bool" where
  "deterministic mcpf \<longleftrightarrow>
     (\<forall>n w w'. fst (ans_resolve mcpf n w) = fst (ans_resolve mcpf n w'))
     \<and> (\<forall>d w w'. fst (did_verifyAgent mcpf d w) = fst (did_verifyAgent mcpf d w'))
     \<and> (\<forall>r w w'. fst (a2a_checkDelegation mcpf r w) = fst (a2a_checkDelegation mcpf r w'))"

text \<open>
  The accumulation over the four tests of \<^verbatim>\<open>calculateRiskScore\<close>, as a function of
  their outcomes.
\<close>

definition accumulate :: "bool \<Rightarrow> bool \<Rightarrow> bool \<Rightarrow> bool \<Rightarrow> rat" where
  "accumulate a1 a2 v c =
     (let score = 0;
          score = (if a1 then fadd score (to_double (3 / 10)) else score);
          score = (if a2 then fadd score (to_double (2 / 10)) else score);
          score = (if v then fadd score (to_double (2 / 10)) else score);
          score = (if c then fadd score (to_double (3 / 10)) else score)
      in score)"


section \<open>Facts about the arithmetic\<close>

text \<open>The doubles that occur, as exact rationals.\<close>

lemma double_0_2: "to_double (1 / 5) = 3602879701896397 / 18014398509481984"
  by code_simp

lemma double_0_3: "to_double (3 / 10) = 5404319552844595 / 18014398509481984"
  by code_simp

lemma double_0_5: "to_double (1 / 2) = 1 / 2"
  by code_simp

lemma double_0_6: "to_double (3 / 5) = 5404319552844595 / 9007199254740992"
  by code_simp

lemma double_0_7: "to_double (7 / 10) = 3152519739159347 / 4503599627370496"
  by code_simp

lemma double_0_8: "to_double (4 / 5) = 3602879701896397 / 4503599627370496"
  by code_simp

lemma double_1: "to_double 1 = 1"
  by code_simp

lemmas double_values =
  double_0_2 double_0_3 double_0_5 double_0_6 double_0_7 double_0_8 double_1

text \<open>The sums that occur: none of them carries a rounding error.\<close>

lemma fadd_zero: "fadd 0 x = to_double x"
  by (simp add: fadd_def)

lemma double_idem_0_2: "to_double (to_double (1 / 5)) = to_double (1 / 5)"
  by code_simp

lemma double_idem_0_3: "to_double (to_double (3 / 10)) = to_double (3 / 10)"
  by code_simp

lemma fadd_0_3_0_2: "fadd (to_double (3 / 10)) (to_double (1 / 5)) = to_double (1 / 2)"
  by code_simp

lemma fadd_0_3_0_3: "fadd (to_double (3 / 10)) (to_double (3 / 10)) = to_double (3 / 5)"
  by code_simp

lemma fadd_0_2_0_3: "fadd (to_double (1 / 5)) (to_double (3 / 10)) = to_double (1 / 2)"
  by code_simp

lemma fadd_0_5_0_2: "fadd (to_double (1 / 2)) (to_double (1 / 5)) = to_double (7 / 10)"
  by code_simp

lemma fadd_0_5_0_3: "fadd (to_double (1 / 2)) (to_double (3 / 10)) = to_double (4 / 5)"
  by code_simp

lemma fadd_0_7_0_3: "fadd (to_double (7 / 10)) (to_double (3 / 10)) = to_double 1"
  by code_simp

lemmas double_sums =
  fadd_zero double_idem_0_2 double_idem_0_3 fadd_0_3_0_2 fadd_0_3_0_3 fadd_0_2_0_3
  fadd_0_5_0_2 fadd_0_5_0_3 fadd_0_7_0_3

lemma or_zero_gt: "js_gt (or_zero v) (Fin 5) = js_gt (toNumber v) (Fin 5)"
  by (cases v rule: or_zero.cases) auto

lemma js_gt_50000: "js_gt a (Fin 50000) \<Longrightarrow> js_gt a (Fin 10000)"
  by (cases a) auto

lemma scoreBeforeClamp_accumulate:
  "scoreBeforeClamp tx =
     accumulate (js_gt (amount tx) (Fin 10000)) (js_gt (amount tx) (Fin 50000))
       (js_gt (toNumber (recentTxCount (metadata tx))) (Fin 5))
       (toCountry (metadata tx) = Some ''XX'')"
  by (simp add: scoreBeforeClamp_def accumulate_def Let_def or_zero_gt)

lemma accumulate_exact:
  assumes "a2 \<longrightarrow> a1"
  shows "accumulate a1 a2 v c =
     to_double ((if a1 then 3 / 10 else 0) + (if a2 then 1 / 5 else 0)
                + (if v then 1 / 5 else 0) + (if c then 3 / 10 else 0))"
  using assms
  by (cases a1; cases a2; cases v; cases c)
     (simp_all add: accumulate_def to_double_def [of 0] double_sums)


section \<open>The risk score\<close>

lemma clamp_accumulate:
  assumes "a2 \<longrightarrow> a1"
  shows "min (accumulate a1 a2 v c) 1 =
     to_double (max 0 (min 1 ((if a1 then 3 / 10 else 0) + (if a2 then 2 / 10 else 0)
                + (if v then 2 / 10 else 0) + (if c then 3 / 10 else 0))))"
  using assms
  by (cases a1; cases a2; cases v; cases c)
     (simp_all add: accumulate_exact double_values to_double_def [of 0])

lemma calculateRiskScore_reference: "calculateRiskScore tx = to_double (reference_score tx)"
  unfolding calculateRiskScore_def reference_score_def scoreBeforeClamp_accumulate
  by (rule clamp_accumulate) (simp add: js_gt_50000)

lemma not_gt_if_le: "js_le a b \<Longrightarrow> \<not> js_gt a b"
  by (cases a; cases b) auto

text \<open>
  C3. The score that \<^verbatim>\<open>calculateRiskScore\<close> computes in double arithmetic is the double
  nearest to the reference value of the specification (0.3 above 10,000, a further 0.2
  above 50,000, 0.2 for more than 5 recent transactions, 0.3 for the high-risk country,
  clamped to the interval from 0 to 1). In particular an amount of at most 10,000 with
  a recent-transaction count of at most 5 (or none) and another country scores 0.
\<close>

theorem C3_score_equals_reference:
  "calculateRiskScore tx = to_double (reference_score tx) \<and>
   (js_le (amount tx) (Fin 10000)
      \<and> (case recentTxCount (metadata tx) of None \<Rightarrow> True | Some n \<Rightarrow> js_le n (Fin 5))
      \<and> toCountry (metadata tx) \<noteq> Some ''XX''
    \<longrightarrow> calculateRiskScore tx = 0)"
proof (intro conjI impI)
  show "calculateRiskScore tx = to_double (reference_score tx)"
    by (rule calculateRiskScore_reference)
next
  assume h: "js_le (amount tx) (Fin 10000)
      \<and> (case recentTxCount (metadata tx) of None \<Rightarrow> True | Some n \<Rightarrow> js_le n (Fin 5))
      \<and> toCountry (metadata tx) \<noteq> Some ''XX''"
  then have a: "\<not> js_gt (amount tx) (Fin 10000)" "\<not> js_gt (amount tx) (Fin 50000)"
    using js_gt_50000 not_gt_if_le by blast+
  from h have v: "\<not> js_gt (toNumber (recentTxCount (metadata tx))) (Fin 5)"
    by (cases "recentTxCount (metadata tx)") (auto dest: not_gt_if_le)
  from h a v show "calculateRiskScore tx = 0"
    by (simp add: calculateRiskScore_def scoreBeforeClamp_accumulate accumulate_def)
qed

theorem C3_score_equals_reference_witness:
  "js_le (amount (example_tx (Fin 10000) (Some (Fin 5)) (Some ''US''))) (Fin 10000)
   \<and> calculateRiskScore (example_tx (Fin 10000) (Some (Fin 5)) (Some ''US'')) = 0"
  using C3_score_equals_reference [of "example_tx (Fin 10000) (Some (Fin 5)) (Some ''US'')"]
  by (simp add: example_tx_def)


section \<open>The fraud-detection workflow\<close>

lemma and_then_await:
  "and_then (await c f) k (calls, w) =
     (case f w of (Inl e, w') \<Rightarrow> (Inl e, (calls @ [c], w'))
                | (Inr a, w') \<Rightarrow> k a (calls @ [c], w'))"
  by (simp add: and_then_def await_def split: prod.splits sum.splits)

lemmas service_defs = resolve_def verifyAgent_def checkDelegation_def

lemma check_only_after_verification:
  assumes "CheckDelegation req \<in> set (fst (snd (detectFraud mcpf transaction ([], w))))"
  shows "\<exists>fraudDetector riskAnalyzer w1 w2 w3 w4.
           ans_resolve mcpf ''fraud-detector.risk.bank.example.agent'' w = (Inr fraudDetector, w1)
           \<and> ans_resolve mcpf ''risk-analyzer.analytics.bank.example.agent'' w1
                = (Inr riskAnalyzer, w2)
           \<and> did_verifyAgent mcpf (did fraudDetector) w2 = (Inr True, w3)
           \<and> did_verifyAgent mcpf (did riskAnalyzer) w3 = (Inr True, w4)
           \<and> take 5 (fst (snd (detectFraud mcpf transaction ([], w)))) =
               [Resolve ''fraud-detector.risk.bank.example.agent'',
                Resolve ''risk-analyzer.analytics.bank.example.agent'',
                VerifyAgent (did fraudDetector), VerifyAgent (did riskAnalyzer),
                CheckDelegation req]"
  using assms
  by (auto simp: detectFraud_def service_defs and_then_await throw_def Let_def
        split: prod.splits sum.splits if_splits option.splits)

text \<open>
  C5. When both agents resolve and the Credential Verifier answers false for the source
  or for the target agent, \<^verbatim>\<open>detectFraud\<close> fails with the error "Agent credential
  verification failed", and the calls made are the two resolutions and the two
  verifications: the Delegation Checker is not invoked. In any run at all, a call of the
  Delegation Checker is the fifth call, after both verifications have answered true.
\<close>

theorem C5_credential_gate:
  "(ans_resolve mcpf ''fraud-detector.risk.bank.example.agent'' w = (Inr fraudDetector, w1)
    \<and> ans_resolve mcpf ''risk-analyzer.analytics.bank.example.agent'' w1 = (Inr riskAnalyzer, w2)
    \<and> did_verifyAgent mcpf (did fraudDetector) w2 = (Inr detectorValid, w3)
    \<and> did_verifyAgent mcpf (did riskAnalyzer) w3 = (Inr analyzerValid, w4)
    \<and> (\<not> detectorValid \<or> \<not> analyzerValid)
    \<longrightarrow> detectFraud mcpf transaction ([], w) =
           (Inl (Error ''Agent credential verification failed''),
            ([Resolve ''fraud-detector.risk.bank.example.agent'',
              Resolve ''risk-analyzer.analytics.bank.example.agent'',
              VerifyAgent (did fraudDetector), VerifyAgent (did riskAnalyzer)], w4))
        \<and> (\<forall>r. CheckDelegation r \<notin> set (fst (snd (detectFraud mcpf transaction ([], w))))))
   \<and> (CheckDelegation req \<in> set (fst (snd (detectFraud mcpf transaction ([], w))))
    \<longrightarrow> (\<exists>a b v1 v2 v3 v4.
           ans_resolve mcpf ''fraud-detector.risk.bank.example.agent'' w = (Inr a, v1)
           \<and> ans_resolve mcpf ''risk-analyzer.analytics.bank.example.agent'' v1 = (Inr b, v2)
           \<and> did_verifyAgent mcpf (did a) v2 = (Inr True, v3)
           \<and> did_verifyAgent mcpf (did b) v3 = (Inr True, v4)
           \<and> take 5 (fst (snd (detectFraud mcpf transaction ([], w)))) =
               [Resolve ''fraud-detector.risk.bank.example.agent'',
                Resolve ''risk-analyzer.analytics.bank.example.agent'',
                VerifyAgent (did a), VerifyAgent (did b), CheckDelegation req]))"
proof (intro conjI impI)
  assume h: "ans_resolve mcpf ''fraud-detector.risk.bank.example.agent'' w = (Inr fraudDetector, w1)
    \<and> ans_resolve mcpf ''risk-analyzer.analytics.bank.example.agent'' w1 = (Inr riskAnalyzer, w2)
    \<and> did_verifyAgent mcpf (did fraudDetector) w2 = (Inr detectorValid, w3)
    \<and> did_verifyAgent mcpf (did riskAnalyzer) w3 = (Inr analyzerValid, w4)
    \<and> (\<not> detectorValid \<or> \<not> analyzerValid)"
  then show run: "detectFraud mcpf transaction ([], w) =
           (Inl (Error ''Agent credential verification failed''),
            ([Resolve ''fraud-detector.risk.bank.example.agent'',
              Resolve ''risk-analyzer.analytics.bank.example.agent'',
              VerifyAgent (did fraudDetector), VerifyAgent (did riskAnalyzer)], w4))"
    by (simp add: detectFraud_def service_defs and_then_await throw_def)
  show "\<forall>r. CheckDelegation r \<notin> set (fst (snd (detectFraud mcpf transaction ([], w))))"
    unfolding run by simp
next
  assume "CheckDelegation req \<in> set (fst (snd (detectFraud mcpf transaction ([], w))))"
  then show "\<exists>a b v1 v2 v3 v4.
           ans_resolve mcpf ''fraud-detector.risk.bank.example.agent'' w = (Inr a, v1)
           \<and> ans_resolve mcpf ''risk-analyzer.analytics.bank.example.agent'' v1 = (Inr b, v2)
           \<and> did_verifyAgent mcpf (did a) v2 = (Inr True, v3)
           \<and> did_verifyAgent mcpf (did b) v3 = (Inr True, v4)
           \<and> take 5 (fst (snd (detectFraud mcpf transaction ([], w)))) =
               [Resolve ''fraud-detector.risk.bank.example.agent'',
                Resolve ''risk-analyzer.analytics.bank.example.agent'',
                VerifyAgent (did a), VerifyAgent (did b), CheckDelegation req]"
    by (rule check_only_after_verification)
qed

theorem C5_credential_gate_witness:
  "detectFraud (stub_mcpf True False granted)
      (example_tx (Fin 15000) (Some (Fin 3)) (Some ''US'')) ([], 0) =
     (Inl (Error ''Agent credential verification failed''),
      ([Resolve ''fraud-detector.risk.bank.example.agent'',
        Resolve ''risk-analyzer.analytics.bank.example.agent'',
        VerifyAgent ''did:web:fraud-detector.risk.bank.example.agent'',
        VerifyAgent ''did:web:risk-analyzer.analytics.bank.example.agent''], 4))
   \<and> CheckDelegation \<lparr>fromDid = ''did:web:fraud-detector.risk.bank.example.agent'',
                       toDid = ''did:web:risk-analyzer.analytics.bank.example.agent'',
                       action = ''analyze-transaction''\<rparr>
         \<in> set (fst (snd (detectFraud (stub_mcpf True True granted)
                  (example_tx (Fin 15000) (Some (Fin 3)) (Some ''US'')) ([], 0))))
   \<and> did_verifyAgent (stub_mcpf True True granted)
        ''did:web:risk-analyzer.analytics.bank.example.agent'' 3 = (Inr True, 4)"
  using C5_credential_gate [where mcpf = "stub_mcpf True False granted" and w = 0 and ?w1.0 = 1
      and ?w2.0 = 2 and ?w3.0 = 3 and ?w4.0 = 4 and detectorValid = True and analyzerValid = False
      and transaction = "example_tx (Fin 15000) (Some (Fin 3)) (Some ''US'')"
      and fraudDetector = "\<lparr>agent_name = ''fraud-detector.risk.bank.example.agent'',
                           did = ''did:web:fraud-detector.risk.bank.example.agent''\<rparr>"
      and riskAnalyzer = "\<lparr>agent_name = ''risk-analyzer.analytics.bank.example.agent'',
                          did = ''did:web:risk-analyzer.analytics.bank.example.agent''\<rparr>"]
  by (simp add: stub_mcpf_def)
     (simp add: detectFraud_def service_defs and_then_await granted_def Let_def)

text \<open>
  C6. When the Delegation Checker answers \<open>allowed = false\<close> with reason \<open>r\<close>,
  \<^verbatim>\<open>detectFraud\<close> fails with an error whose message is "Delegation denied: " followed
  by \<open>r\<close> itself, so the message contains \<open>r\<close> unaltered.
\<close>

theorem C6_denial_reason_verbatim:
  assumes "ans_resolve mcpf ''fraud-detector.risk.bank.example.agent'' w = (Inr fraudDetector, w1)"
    and "ans_resolve mcpf ''risk-analyzer.analytics.bank.example.agent'' w1 = (Inr riskAnalyzer, w2)"
    and "did_verifyAgent mcpf (did fraudDetector) w2 = (Inr True, w3)"
    and "did_verifyAgent mcpf (did riskAnalyzer) w3 = (Inr True, w4)"
    and "a2a_checkDelegation mcpf
           \<lparr>fromDid = did fraudDetector, toDid = did riskAnalyzer,
            action = ''analyze-transaction''\<rparr> w4 = (Inr delegation, w5)"
    and "\<not> allowed delegation" and "reason delegation = Some r"
  shows "fst (detectFraud mcpf transaction (calls, w)) = Inl (Error (''Delegation denied: '' @ r))
         \<and> suffix r (''Delegation denied: '' @ r) \<and> sublist r (''Delegation denied: '' @ r)"
  using assms
  by (simp add: detectFraud_def service_defs and_then_await throw_def suffix_def)

theorem C6_denial_reason_verbatim_witness:
  "fst (detectFraud (stub_mcpf True True denied)
          (example_tx (Fin 15000) (Some (Fin 3)) (Some ''US'')) ([], 0))
     = Inl (Error ''Delegation denied: policy pol_7 expired'')"
  using C6_denial_reason_verbatim [where mcpf = "stub_mcpf True True denied"
      and w = 0 and ?w1.0 = 1
      and ?w2.0 = 2 and ?w3.0 = 3 and ?w4.0 = 4 and ?w5.0 = 5 and r = "''policy pol_7 expired''"
      and calls = "[]"
      and delegation = denied
      and fraudDetector = "\<lparr>agent_name = ''fraud-detector.risk.bank.example.agent'',
                           did = ''did:web:fraud-detector.risk.bank.example.agent''\<rparr>"
      and riskAnalyzer = "\<lparr>agent_name = ''risk-analyzer.analytics.bank.example.agent'',
                          did = ''did:web:risk-analyzer.analytics.bank.example.agent''\<rparr>"]
  by (simp add: stub_mcpf_def denied_def)

lemma detectFraud_success:
  assumes "fst (detectFraud mcpf tx st) = Inr r"
  shows "transactionId r = tx_id tx \<and> riskScore r = calculateRiskScore tx
         \<and> reasoning r = generateReasoning tx (calculateRiskScore tx)
         \<and> decision r = decisionFor (calculateRiskScore tx)"
  using assms
  by (cases st)
     (auto simp: detectFraud_def service_defs and_then_await throw_def Let_def
           split: prod.splits sum.splits if_splits option.splits)

lemma stub_deterministic: "deterministic (stub_mcpf a b d)"
  by (simp add: deterministic_def stub_mcpf_def)

lemma stub_run:
  "fst (detectFraud (stub_mcpf True True granted) tx (c, w)) =
     Inr \<lparr>transactionId = tx_id tx,
          fraudDetectorDid = ''did:web:fraud-detector.risk.bank.example.agent'',
          riskAnalyzerDid = ''did:web:risk-analyzer.analytics.bank.example.agent'',
          policyId = ''pol_xyz'', riskScore = calculateRiskScore tx,
          decision = decisionFor (calculateRiskScore tx),
          reasoning = generateReasoning tx (calculateRiskScore tx),
          timestamp = ''tick '' @ replicate (Suc (Suc (Suc (Suc (Suc w))))) CHR ''|''\<rparr>"
  by (simp add: detectFraud_def service_defs and_then_await stub_mcpf_def granted_def Let_def)


text \<open>
  C4. For every score the decision is BLOCK above 0.8 (the double of that literal,
  3602879701896397 / 4503599627370496), otherwise REVIEW above 0.5, otherwise ALLOW,
  both comparisons strict: the score 0.5 gives ALLOW and the score 0.8 gives REVIEW.
  Every result of \<^verbatim>\<open>detectFraud\<close> carries the decision that belongs to its score.
\<close>

theorem C4_decision_boundaries:
  "decisionFor s =
     (if 3602879701896397 / 4503599627370496 < s then BLOCK
      else if 1 / 2 < s then REVIEW else ALLOW)
   \<and> decisionFor (to_double (5 / 10)) = ALLOW
   \<and> decisionFor (to_double (8 / 10)) = REVIEW
   \<and> (fst (detectFraud mcpf tx st) = Inr r \<longrightarrow>
        decision r = (if to_double (8 / 10) < riskScore r then BLOCK
                      else if to_double (5 / 10) < riskScore r then REVIEW else ALLOW))"
  using detectFraud_success [of mcpf tx st r]
  by (simp add: decisionFor_def double_values)

theorem C4_decision_boundaries_witness:
  "calculateRiskScore (example_tx (Fin 60000) (Some (Fin 3)) (Some ''XX'')) = to_double (8 / 10)
   \<and> (\<exists>r. fst (detectFraud (stub_mcpf True True granted)
                (example_tx (Fin 60000) (Some (Fin 3)) (Some ''XX'')) ([], 0)) = Inr r
          \<and> riskScore r = to_double (8 / 10) \<and> decision r = REVIEW)"
proof -
  let ?tx = "example_tx (Fin 60000) (Some (Fin 3)) (Some ''XX'')"
  have score: "calculateRiskScore ?tx = to_double (8 / 10)"
    by (simp add: calculateRiskScore_reference reference_score_def example_tx_def)
  obtain r where run: "fst (detectFraud (stub_mcpf True True granted) ?tx ([], 0)) = Inr r"
    by (simp add: detectFraud_def service_defs and_then_await stub_mcpf_def granted_def Let_def)
  have "riskScore r = to_double (8 / 10)"
    using detectFraud_success [OF run] score by simp
  moreover have "decision r = REVIEW"
    using C4_decision_boundaries [of "riskScore r" "stub_mcpf True True granted" ?tx "([], 0)" r] run
      \<open>riskScore r = to_double (8 / 10)\<close>
    by (simp add: double_values)
  ultimately show ?thesis using score run by blast
qed


lemma and_then_await_fst:
  "and_then (await c f) k (calls, w) =
     (case fst (f w) of Inl e \<Rightarrow> (Inl e, (calls @ [c], snd (f w)))
                      | Inr a \<Rightarrow> k a (calls @ [c], snd (f w)))"
  by (simp add: and_then_def await_def split: prod.splits sum.splits)

lemma detectFraud_deterministic:
  assumes "deterministic mcpf"
  shows "map_sum id (timestamp_update (\<lambda>_. t)) (fst (detectFraud mcpf tx (c1, w1)))
       = map_sum id (timestamp_update (\<lambda>_. t)) (fst (detectFraud mcpf tx (c2, w2)))"
proof -
  define R where "R n = fst (ans_resolve mcpf n w1)" for n
  define V where "V d = fst (did_verifyAgent mcpf d w1)" for d
  define D where "D r = fst (a2a_checkDelegation mcpf r w1)" for r
  have pure: "\<And>n w. fst (ans_resolve mcpf n w) = R n"
    "\<And>d w. fst (did_verifyAgent mcpf d w) = V d"
    "\<And>r w. fst (a2a_checkDelegation mcpf r w) = D r"
    using assms unfolding deterministic_def R_def V_def D_def by blast+
  show ?thesis
    by (simp add: detectFraud_def service_defs and_then_await_fst pure throw_def Let_def
          split: sum.splits option.splits)
qed


text \<open>
  C8. With a deterministic client, two runs of \<^verbatim>\<open>detectFraud\<close> on the same transaction,
  started in any two states of the world, end alike: if the first returns a result, the
  second returns one that agrees with it on the transaction id, both DIDs, the policy
  id, the risk score, the decision and the reasoning (the timestamp is read from the
  world and may differ); if the first fails, the second fails with the same error.
\<close>

theorem C8_same_result_except_timestamp:
  assumes "deterministic mcpf"
  shows "(\<forall>r1. fst (detectFraud mcpf tx (c1, w1)) = Inr r1 \<longrightarrow>
            (\<exists>r2. fst (detectFraud mcpf tx (c2, w2)) = Inr r2
               \<and> transactionId r2 = transactionId r1
               \<and> fraudDetectorDid r2 = fraudDetectorDid r1
               \<and> riskAnalyzerDid r2 = riskAnalyzerDid r1
               \<and> policyId r2 = policyId r1
               \<and> riskScore r2 = riskScore r1
               \<and> decision r2 = decision r1
               \<and> reasoning r2 = reasoning r1))
       \<and> (\<forall>e. fst (detectFraud mcpf tx (c1, w1)) = Inl e \<longrightarrow>
            fst (detectFraud mcpf tx (c2, w2)) = Inl e)"
proof (intro conjI allI impI)
  fix r1 assume a: "fst (detectFraud mcpf tx (c1, w1)) = Inr r1"
  from detectFraud_deterministic [OF assms, of "''''" tx c1 w1 c2 w2] a
  obtain r2 where b: "fst (detectFraud mcpf tx (c2, w2)) = Inr r2"
    and eq: "r1\<lparr>timestamp := ''''\<rparr> = r2\<lparr>timestamp := ''''\<rparr>"
    by (cases "fst (detectFraud mcpf tx (c2, w2))") auto
  from eq have "transactionId r2 = transactionId r1
               \<and> fraudDetectorDid r2 = fraudDetectorDid r1
               \<and> riskAnalyzerDid r2 = riskAnalyzerDid r1
               \<and> policyId r2 = policyId r1
               \<and> riskScore r2 = riskScore r1
               \<and> decision r2 = decision r1
               \<and> reasoning r2 = reasoning r1"
    by (cases r1; cases r2) simp
  with b show "\<exists>r2. fst (detectFraud mcpf tx (c2, w2)) = Inr r2
               \<and> transactionId r2 = transactionId r1
               \<and> fraudDetectorDid r2 = fraudDetectorDid r1
               \<and> riskAnalyzerDid r2 = riskAnalyzerDid r1
               \<and> policyId r2 = policyId r1
               \<and> riskScore r2 = riskScore r1
               \<and> decision r2 = decision r1
               \<and> reasoning r2 = reasoning r1" by blast
next
  fix e assume a: "fst (detectFraud mcpf tx (c1, w1)) = Inl e"
  from detectFraud_deterministic [OF assms, of "''''" tx c1 w1 c2 w2] a
  show "fst (detectFraud mcpf tx (c2, w2)) = Inl e"
    by (cases "fst (detectFraud mcpf tx (c2, w2))") auto
qed


theorem C8_same_result_except_timestamp_witness:
  "deterministic (stub_mcpf True True granted)
   \<and> (\<exists>r1 r2. fst (detectFraud (stub_mcpf True True granted)
                  (example_tx (Fin 15000) (Some (Fin 3)) (Some ''US'')) ([], 0)) = Inr r1
        \<and> fst (detectFraud (stub_mcpf True True granted)
                  (example_tx (Fin 15000) (Some (Fin 3)) (Some ''US'')) ([], 1)) = Inr r2
        \<and> timestamp r1 \<noteq> timestamp r2
        \<and> transactionId r2 = transactionId r1 \<and> fraudDetectorDid r2 = fraudDetectorDid r1
        \<and> riskAnalyzerDid r2 = riskAnalyzerDid r1 \<and> policyId r2 = policyId r1
        \<and> riskScore r2 = riskScore r1 \<and> decision r2 = decision r1
        \<and> reasoning r2 = reasoning r1)"
proof -
  let ?m = "stub_mcpf True True granted"
  let ?tx = "example_tx (Fin 15000) (Some (Fin 3)) (Some ''US'')"
  have d: "deterministic ?m" by (rule stub_deterministic)
  obtain r1 where r1: "fst (detectFraud ?m ?tx ([], 0)) = Inr r1"
    by (simp add: stub_run)
  from C8_same_result_except_timestamp [OF d, of ?tx "[]" 0 "[]" 1] r1
  obtain r2 where r2: "fst (detectFraud ?m ?tx ([], 1)) = Inr r2"
    and same: "transactionId r2 = transactionId r1" "fraudDetectorDid r2 = fraudDetectorDid r1"
      "riskAnalyzerDid r2 = riskAnalyzerDid r1" "policyId r2 = policyId r1"
      "riskScore r2 = riskScore r1" "decision r2 = decision r1" "reasoning r2 = reasoning r1"
    by blast
  have "timestamp r1 \<noteq> timestamp r2"
    using r1 r2 by (auto simp: stub_run)
  with d r1 r2 same show ?thesis by blast
qed


section \<open>The reasoning list\<close>

text \<open>
  C2, as stated, fails: with 6 recent transactions, an amount of 100 and an ordinary
  country the score is 0.2, below 0.3, and the list holds the velocity reason together
  with the "normal pattern" note.
\<close>

theorem C2_counterexample:
  "scoreBeforeClamp (example_tx (Fin 100) (Some (Fin 6)) (Some ''US'')) < to_double (3 / 10)
   \<and> generateReasoning (example_tx (Fin 100) (Some (Fin 6)) (Some ''US''))
        (calculateRiskScore (example_tx (Fin 100) (Some (Fin 6)) (Some ''US'')))
      = [''High transaction velocity'', ''Normal transaction pattern'']"
  by (simp add: calculateRiskScore_def scoreBeforeClamp_accumulate accumulate_exact
        generateReasoning_def example_tx_def double_values)

lemma accumulate_below_0_3:
  assumes "a2 \<longrightarrow> a1"
  shows "accumulate a1 a2 v c < to_double (3 / 10) \<longleftrightarrow> \<not> a1 \<and> \<not> c"
  using assms
  by (cases a1; cases a2; cases v; cases c)
     (simp_all add: accumulate_exact double_values to_double_def [of 0])

lemma accumulate_clamped_below_0_3:
  assumes "a2 \<longrightarrow> a1"
  shows "min (accumulate a1 a2 v c) 1 < to_double (3 / 10) \<longleftrightarrow> \<not> a1 \<and> \<not> c"
  using assms
  by (cases a1; cases a2; cases v; cases c)
     (simp_all add: accumulate_exact double_values to_double_def [of 0])

lemma scoreBeforeClamp_below_0_3:
  "scoreBeforeClamp tx < to_double (3 / 10) \<longleftrightarrow>
     \<not> js_gt (amount tx) (Fin 10000) \<and> toCountry (metadata tx) \<noteq> Some ''XX''"
  unfolding scoreBeforeClamp_accumulate
  by (rule accumulate_below_0_3) (simp add: js_gt_50000)

lemma calculateRiskScore_below_0_3:
  "calculateRiskScore tx < to_double (3 / 10) \<longleftrightarrow>
     \<not> js_gt (amount tx) (Fin 10000) \<and> toCountry (metadata tx) \<noteq> Some ''XX''"
  unfolding calculateRiskScore_def scoreBeforeClamp_accumulate
  by (rule accumulate_clamped_below_0_3) (simp add: js_gt_50000)

text \<open>
  C2, amended. When the score before the clamp is below 0.3, the reasoning list ends
  with the "normal pattern" note and holds neither the amount reason nor the country
  reason; the velocity reason precedes the note exactly when the recent-transaction
  count exceeds 5. For amount 60,000, count 6 and the high-risk country the list is
  exactly the three reasons, without the note.
\<close>

theorem C2_reasoning_below_threshold:
  "(scoreBeforeClamp tx < to_double (3 / 10) \<longrightarrow>
      generateReasoning tx (calculateRiskScore tx) =
        (if js_gt (toNumber (recentTxCount (metadata tx))) (Fin 5)
         then [''High transaction velocity''] else []) @ [''Normal transaction pattern''])
   \<and> (amount tx = Fin 60000 \<and> recentTxCount (metadata tx) = Some (Fin 6)
        \<and> toCountry (metadata tx) = Some ''XX'' \<longrightarrow>
      generateReasoning tx (calculateRiskScore tx) =
        [''High transaction amount'', ''High transaction velocity'',
         ''High-risk destination country''])"
  by (simp add: scoreBeforeClamp_below_0_3 generateReasoning_def [of tx "calculateRiskScore tx"] calculateRiskScore_below_0_3)

theorem C2_reasoning_below_threshold_witness:
  "scoreBeforeClamp (example_tx (Fin 100) (Some (Fin 3)) (Some ''US'')) < to_double (3 / 10)
   \<and> generateReasoning (example_tx (Fin 100) (Some (Fin 3)) (Some ''US''))
        (calculateRiskScore (example_tx (Fin 100) (Some (Fin 3)) (Some ''US'')))
      = [''Normal transaction pattern'']
   \<and> generateReasoning (example_tx (Fin 60000) (Some (Fin 6)) (Some ''XX''))
        (calculateRiskScore (example_tx (Fin 60000) (Some (Fin 6)) (Some ''XX'')))
      = [''High transaction amount'', ''High transaction velocity'',
         ''High-risk destination country'']"
  using C2_reasoning_below_threshold [of "example_tx (Fin 100) (Some (Fin 3)) (Some ''US'')"]
    C2_reasoning_below_threshold [of "example_tx (Fin 60000) (Some (Fin 6)) (Some ''XX'')"]
    scoreBeforeClamp_below_0_3 [of "example_tx (Fin 100) (Some (Fin 3)) (Some ''US'')"]
  by (simp add: example_tx_def)


text \<open>
  C10. The reasoning list is never empty: from a score of 0.3 on, one of the three
  reasons is in it; below 0.3 the "Normal transaction pattern" note is in it; an amount
  above 50,000 always comes with the amount reason; and the list in a result of
  \<^verbatim>\<open>detectFraud\<close> is this list.
\<close>

theorem C10_reasoning_nonempty:
  "generateReasoning tx (calculateRiskScore tx) \<noteq> []
   \<and> (to_double (3 / 10) \<le> calculateRiskScore tx \<longrightarrow>
        ''High transaction amount'' \<in> set (generateReasoning tx (calculateRiskScore tx))
        \<or> ''High transaction velocity'' \<in> set (generateReasoning tx (calculateRiskScore tx))
        \<or> ''High-risk destination country'' \<in> set (generateReasoning tx (calculateRiskScore tx)))
   \<and> (calculateRiskScore tx < to_double (3 / 10) \<longrightarrow>
        ''Normal transaction pattern'' \<in> set (generateReasoning tx (calculateRiskScore tx)))
   \<and> (js_gt (amount tx) (Fin 50000) \<longrightarrow>
        ''High transaction amount'' \<in> set (generateReasoning tx (calculateRiskScore tx)))
   \<and> (fst (detectFraud mcpf tx st) = Inr r \<longrightarrow>
        reasoning r = generateReasoning tx (calculateRiskScore tx) \<and> reasoning r \<noteq> [])"
  using detectFraud_success [of mcpf tx st r] js_gt_50000 [of "amount tx"]
    calculateRiskScore_below_0_3 [of tx]
  by (auto simp: generateReasoning_def [of tx "calculateRiskScore tx"] not_le [symmetric])

theorem C10_reasoning_nonempty_witness:
  "to_double (3 / 10) \<le> calculateRiskScore (example_tx (Fin 60000) (Some (Fin 3)) (Some ''US''))
   \<and> js_gt (amount (example_tx (Fin 60000) (Some (Fin 3)) (Some ''US''))) (Fin 50000)
   \<and> ''High transaction amount'' \<in> set (generateReasoning
         (example_tx (Fin 60000) (Some (Fin 3)) (Some ''US''))
         (calculateRiskScore (example_tx (Fin 60000) (Some (Fin 3)) (Some ''US''))))
   \<and> calculateRiskScore (example_tx (Fin 100) (Some (Fin 3)) (Some ''US'')) < to_double (3 / 10)
   \<and> ''Normal transaction pattern'' \<in> set (generateReasoning
         (example_tx (Fin 100) (Some (Fin 3)) (Some ''US''))
         (calculateRiskScore (example_tx (Fin 100) (Some (Fin 3)) (Some ''US''))))
   \<and> (\<exists>r. fst (detectFraud (stub_mcpf True True granted)
                (example_tx (Fin 100) (Some (Fin 3)) (Some ''US'')) ([], 0)) = Inr r
          \<and> reasoning r \<noteq> [])"
proof -
  let ?hi = "example_tx (Fin 60000) (Some (Fin 3)) (Some ''US'')"
  let ?lo = "example_tx (Fin 100) (Some (Fin 3)) (Some ''US'')"
  have hi: "js_gt (amount ?hi) (Fin 50000)"
    by (simp add: example_tx_def)
  have hi_score: "to_double (3 / 10) \<le> calculateRiskScore ?hi"
    using calculateRiskScore_below_0_3 [of ?hi] by (simp add: example_tx_def not_le [symmetric])
  have lo_score: "calculateRiskScore ?lo < to_double (3 / 10)"
    using calculateRiskScore_below_0_3 [of ?lo] by (simp add: example_tx_def)
  obtain r where run: "fst (detectFraud (stub_mcpf True True granted) ?lo ([], 0)) = Inr r"
    by (simp add: stub_run)
  from C10_reasoning_nonempty [of ?hi "stub_mcpf True True granted" "([], 0)" r] hi
  have a: "''High transaction amount'' \<in> set (generateReasoning ?hi (calculateRiskScore ?hi))"
    by blast
  from C10_reasoning_nonempty [of ?lo "stub_mcpf True True granted" "([], 0)" r] lo_score run
  have b: "''Normal transaction pattern'' \<in> set (generateReasoning ?lo (calculateRiskScore ?lo))"
    and c: "reasoning r \<noteq> []"
    by blast+
  from hi hi_score lo_score a b c run show ?thesis by blast
qed


section \<open>The escalation workflow\<close>

lemma double_0_9: "to_double (9 / 10) = 8106479329266893 / 9007199254740992"
  by code_simp

text \<open>
  C1. A query of high severity whose escalation the Delegation Checker denies: the
  function of the source makes the delegation check and then returns a result with the
  status "resolved_l1" and the first-level response. The status does not encode the
  denial.
\<close>

theorem C1_denied_escalation_returns_resolved:
  "handleCustomerQuery (stub_mcpf True True denied) (example_query (Some ''high'')) ([], 0) =
     (Inr \<lparr>status = ''resolved_l1'',
           response = \<lparr>response_message = ''I can help with that!'', confidence = 1 / 2\<rparr>,
           result_policyId = None\<rparr>,
      ([Resolve ''chatbot-l1.support.company.example.agent'',
        Resolve ''supervisor-ai.management.company.example.agent'',
        CheckDelegation \<lparr>fromDid = ''did:web:chatbot-l1.support.company.example.agent'',
                         toDid = ''did:web:supervisor-ai.management.company.example.agent'',
                         action = ''escalate''\<rparr>], 3))"
  by (simp add: handleCustomerQuery_def handleCustomerQueryWith_def service_defs and_then_await
        return_value_def simulateL1Response_def stub_mcpf_def denied_def example_query_def
        double_values Let_def)

text \<open>
  C7. With both agents resolved, for any first-level responder: when the severity is
  "high" or the confidence is below 0.8, the Delegation Checker is called (whatever the
  confidence, respectively the severity), and an allowed delegation with a policy gives
  the status "escalated"; when the severity is not "high" and the confidence is at
  least 0.8, the result is "resolved_l1" with the first-level response and no
  delegation check is made. For the stub responder of the source the confidence is
  below 0.8 exactly when the severity is "high".
\<close>

theorem C7_escalation_is_disjunction:
  assumes "ans_resolve mcpf ''chatbot-l1.support.company.example.agent'' w = (Inr chatbotL1, w1)"
    and "ans_resolve mcpf ''supervisor-ai.management.company.example.agent'' w1
           = (Inr supervisorAI, w2)"
  shows "(severity query = Some ''high'' \<or> confidence (l1 query) < to_double (8 / 10) \<longrightarrow>
            fst (snd (handleCustomerQueryWith l1 mcpf query ([], w))) =
              [Resolve ''chatbot-l1.support.company.example.agent'',
               Resolve ''supervisor-ai.management.company.example.agent'',
               CheckDelegation \<lparr>fromDid = did chatbotL1, toDid = did supervisorAI,
                                action = ''escalate''\<rparr>])
       \<and> ((severity query = Some ''high'' \<or> confidence (l1 query) < to_double (8 / 10))
            \<and> a2a_checkDelegation mcpf
                 \<lparr>fromDid = did chatbotL1, toDid = did supervisorAI, action = ''escalate''\<rparr> w2
                 = (Inr delegation, w3)
            \<and> allowed delegation \<and> policy delegation = Some p \<longrightarrow>
            fst (handleCustomerQueryWith l1 mcpf query ([], w)) =
              Inr \<lparr>status = ''escalated'', response = simulateSupervisorResponse query,
                   result_policyId = Some (policy_id p)\<rparr>)
       \<and> (severity query \<noteq> Some ''high'' \<and> to_double (8 / 10) \<le> confidence (l1 query) \<longrightarrow>
            handleCustomerQueryWith l1 mcpf query ([], w) =
              (Inr \<lparr>status = ''resolved_l1'', response = l1 query, result_policyId = None\<rparr>,
               ([Resolve ''chatbot-l1.support.company.example.agent'',
                 Resolve ''supervisor-ai.management.company.example.agent''], w2)))
       \<and> (confidence (simulateL1Response query) < to_double (8 / 10)
            \<longleftrightarrow> severity query = Some ''high'')"
proof (intro conjI impI)
  assume "severity query = Some ''high'' \<or> confidence (l1 query) < to_double (8 / 10)"
  with assms show "fst (snd (handleCustomerQueryWith l1 mcpf query ([], w))) =
              [Resolve ''chatbot-l1.support.company.example.agent'',
               Resolve ''supervisor-ai.management.company.example.agent'',
               CheckDelegation \<lparr>fromDid = did chatbotL1, toDid = did supervisorAI,
                                action = ''escalate''\<rparr>]"
    by (auto simp: handleCustomerQueryWith_def service_defs and_then_await
          return_value_def throw_def Let_def split: prod.splits sum.splits option.splits)
next
  assume "(severity query = Some ''high'' \<or> confidence (l1 query) < to_double (8 / 10))
            \<and> a2a_checkDelegation mcpf
                 \<lparr>fromDid = did chatbotL1, toDid = did supervisorAI, action = ''escalate''\<rparr> w2
                 = (Inr delegation, w3)
            \<and> allowed delegation \<and> policy delegation = Some p"
  with assms show "fst (handleCustomerQueryWith l1 mcpf query ([], w)) =
              Inr \<lparr>status = ''escalated'', response = simulateSupervisorResponse query,
                   result_policyId = Some (policy_id p)\<rparr>"
    by (auto simp: handleCustomerQueryWith_def service_defs and_then_await
          return_value_def Let_def)
next
  assume "severity query \<noteq> Some ''high'' \<and> to_double (8 / 10) \<le> confidence (l1 query)"
  with assms show "handleCustomerQueryWith l1 mcpf query ([], w) =
              (Inr \<lparr>status = ''resolved_l1'', response = l1 query, result_policyId = None\<rparr>,
               ([Resolve ''chatbot-l1.support.company.example.agent'',
                 Resolve ''supervisor-ai.management.company.example.agent''], w2))"
    by (auto simp: handleCustomerQueryWith_def service_defs and_then_await
          return_value_def Let_def)
next
  show "confidence (simulateL1Response query) < to_double (8 / 10)
            \<longleftrightarrow> severity query = Some ''high''"
    by (simp add: simulateL1Response_def double_values double_0_9)
qed

theorem C7_escalation_is_disjunction_witness:
  "fst (handleCustomerQueryWith
       (\<lambda>q. \<lparr>response_message = ''I can help with that!'', confidence = to_double (9 / 10)\<rparr>)
       (stub_mcpf True True granted) (example_query (Some ''high'')) ([], 0)) =
     Inr \<lparr>status = ''escalated'',
          response = simulateSupervisorResponse (example_query (Some ''high'')),
          result_policyId = Some ''pol_xyz''\<rparr>
   \<and> fst (snd (handleCustomerQueryWith
       (\<lambda>q. \<lparr>response_message = ''I can help with that!'', confidence = to_double (5 / 10)\<rparr>)
       (stub_mcpf True True granted) (example_query (Some ''low'')) ([], 0))) =
      [Resolve ''chatbot-l1.support.company.example.agent'',
       Resolve ''supervisor-ai.management.company.example.agent'',
       CheckDelegation \<lparr>fromDid = ''did:web:chatbot-l1.support.company.example.agent'',
                        toDid = ''did:web:supervisor-ai.management.company.example.agent'',
                        action = ''escalate''\<rparr>]
   \<and> handleCustomerQueryWith simulateL1Response (stub_mcpf True True granted)
        (example_query (Some ''low'')) ([], 0) =
     (Inr \<lparr>status = ''resolved_l1'',
           response = simulateL1Response (example_query (Some ''low'')),
           result_policyId = None\<rparr>,
      ([Resolve ''chatbot-l1.support.company.example.agent'',
        Resolve ''supervisor-ai.management.company.example.agent''], 2))"
proof -
  let ?m = "stub_mcpf True True granted"
  let ?hi = "\<lambda>q::customer_query.
     \<lparr>response_message = ''I can help with that!'', confidence = to_double (9 / 10)\<rparr>"
  let ?lo = "\<lambda>q::customer_query.
     \<lparr>response_message = ''I can help with that!'', confidence = to_double (5 / 10)\<rparr>"
  let ?c = "\<lparr>agent_name = ''chatbot-l1.support.company.example.agent'',
            did = ''did:web:chatbot-l1.support.company.example.agent''\<rparr>"
  let ?s = "\<lparr>agent_name = ''supervisor-ai.management.company.example.agent'',
            did = ''did:web:supervisor-ai.management.company.example.agent''\<rparr>"
  have r1: "ans_resolve ?m ''chatbot-l1.support.company.example.agent'' 0 = (Inr ?c, 1)"
    and r2: "ans_resolve ?m ''supervisor-ai.management.company.example.agent'' 1 = (Inr ?s, 2)"
    and d: "a2a_checkDelegation ?m
              \<lparr>fromDid = did ?c, toDid = did ?s, action = ''escalate''\<rparr> 2 = (Inr granted, 3)"
    by (simp_all add: stub_mcpf_def)
  have g: "allowed granted" "policy granted = Some \<lparr>policy_id = ''pol_xyz''\<rparr>"
    by (simp_all add: granted_def)
  have sev: "severity (example_query (Some ''high'')) = Some ''high''"
    "severity (example_query (Some ''low'')) \<noteq> Some ''high''"
    by (simp_all add: example_query_def)
  have conf: "confidence (?lo (example_query (Some ''low''))) < to_double (8 / 10)"
    "to_double (8 / 10) \<le> confidence (simulateL1Response (example_query (Some ''low'')))"
    by (simp_all add: double_values double_0_9 simulateL1Response_def example_query_def)
  note t = C7_escalation_is_disjunction [OF r1 r2]
  from t [of "example_query (Some ''high'')" ?hi granted 3 "\<lparr>policy_id = ''pol_xyz''\<rparr>"] d g sev
  have a: "fst (handleCustomerQueryWith ?hi ?m (example_query (Some ''high'')) ([], 0)) =
     Inr \<lparr>status = ''escalated'',
          response = simulateSupervisorResponse (example_query (Some ''high'')),
          result_policyId = Some ''pol_xyz''\<rparr>"
    by simp
  from t [of "example_query (Some ''low'')" ?lo granted 3 "\<lparr>policy_id = ''pol_xyz''\<rparr>"] conf
  have b: "fst (snd (handleCustomerQueryWith ?lo ?m (example_query (Some ''low'')) ([], 0))) =
      [Resolve ''chatbot-l1.support.company.example.agent'',
       Resolve ''supervisor-ai.management.company.example.agent'',
       CheckDelegation \<lparr>fromDid = ''did:web:chatbot-l1.support.company.example.agent'',
                        toDid = ''did:web:supervisor-ai.management.company.example.agent'',
                        action = ''escalate''\<rparr>]"
    by simp
  from t [of "example_query (Some ''low'')" simulateL1Response granted 3
      "\<lparr>policy_id = ''pol_xyz''\<rparr>"] sev conf
  have c: "handleCustomerQueryWith simulateL1Response ?m (example_query (Some ''low'')) ([], 0) =
     (Inr \<lparr>status = ''resolved_l1'',
           response = simulateL1Response (example_query (Some ''low'')),
           result_policyId = None\<rparr>,
      ([Resolve ''chatbot-l1.support.company.example.agent'',
        Resolve ''supervisor-ai.management.company.example.agent''], 2))"
    by simp
  from a b c show ?thesis by simp
qed

lemma handleCustomerQueryWith_calls:
  "set (fst (snd (handleCustomerQueryWith l1 mcpf query (calls, w))))
     \<subseteq> set calls \<union> {Resolve ''chatbot-l1.support.company.example.agent'',
         Resolve ''supervisor-ai.management.company.example.agent''}
       \<union> range CheckDelegation"
  by (auto simp: handleCustomerQueryWith_def service_defs and_then_await
        return_value_def throw_def Let_def split: prod.splits sum.splits option.splits)

text \<open>
  C9. \<^verbatim>\<open>handleCustomerQuery\<close> never calls the Credential Verifier: no verification is
  in the calls of a run, and the run is the same whatever verifier the client has.
\<close>

theorem C9_no_credential_verification:
  "VerifyAgent d \<notin> set (fst (snd (handleCustomerQuery mcpf query ([], w))))
   \<and> handleCustomerQuery (mcpf\<lparr>did_verifyAgent := v\<rparr>) query st = handleCustomerQuery mcpf query st"
proof
  show "VerifyAgent d \<notin> set (fst (snd (handleCustomerQuery mcpf query ([], w))))"
    using handleCustomerQueryWith_calls [of simulateL1Response mcpf query "[]" w]
    by (auto simp: handleCustomerQuery_def)
  show "handleCustomerQuery (mcpf\<lparr>did_verifyAgent := v\<rparr>) query st = handleCustomerQuery mcpf query st"
    unfolding handleCustomerQuery_def handleCustomerQueryWith_def service_defs
    by (simp add: Let_def cong: if_cong)
qed

theorem C9_no_credential_verification_witness:
  "handleCustomerQuery (stub_mcpf False False granted) (example_query (Some ''high'')) ([], 0)
     = handleCustomerQuery (stub_mcpf True True granted) (example_query (Some ''high'')) ([], 0)
   \<and> VerifyAgent ''did:web:chatbot-l1.support.company.example.agent''
        \<notin> set (fst (snd (handleCustomerQuery (stub_mcpf True True granted)
                   (example_query (Some ''high'')) ([], 0))))"
  using C9_no_credential_verification [of "''did:web:chatbot-l1.support.company.example.agent''"
      "stub_mcpf True True granted" "example_query (Some ''high'')" 0
      "did_verifyAgent (stub_mcpf False False granted)" "([], 0)"]
  by (simp add: stub_mcpf_def)

end
